theory Spec2Isabelle
  imports Complex_Main "HOL-Library.Sublist"
begin

section \<open>Python strings\<close>

text \<open>
  A Python \<open>str\<close> is modelled as a \<open>string\<close>: a list of characters, each a code point
  below 256. On this range \<open>str.isspace\<close> holds for the code points 9 to 13, 28 to 32, 133
  and 160, and \<open>str.lower\<close> moves A to Z and the Latin-1 capitals 192 to 222 (215, the
  multiplication sign, apart) up by 32. A character of a source literal that lies outside
  the range is written as its UTF-8 bytes.
\<close>

definition is_space :: "char \<Rightarrow> bool" where
  "is_space c =
     (let n = (of_char c :: nat)
      in (9 \<le> n \<and> n \<le> 13) \<or> (28 \<le> n \<and> n \<le> 32) \<or> n = 133 \<or> n = 160)"

definition lstrip :: "string \<Rightarrow> string" where
  "lstrip s = dropWhile is_space s"

definition rstrip :: "string \<Rightarrow> string" where
  "rstrip s = rev (dropWhile is_space (rev s))"

definition strip :: "string \<Rightarrow> string" where
  "strip s = rstrip (lstrip s)"

definition lower_char :: "char \<Rightarrow> char" where
  "lower_char c =
     (let n = (of_char c :: nat)
      in if (65 \<le> n \<and> n \<le> 90) \<or> (192 \<le> n \<and> n \<le> 222 \<and> n \<noteq> 215)
         then char_of (n + 32) else c)"

definition lower :: "string \<Rightarrow> string" where
  "lower s = map lower_char s"

text \<open>\<open>s.startswith(p)\<close>, \<open>s.endswith(p)\<close> and \<open>sub in s\<close>.\<close>

definition startswith :: "string \<Rightarrow> string \<Rightarrow> bool" where
  "startswith s p = prefix p s"

definition endswith :: "string \<Rightarrow> string \<Rightarrow> bool" where
  "endswith s p = suffix p s"

fun contains :: "string \<Rightarrow> string \<Rightarrow> bool" where
  "contains [] sub = (sub = [])"
| "contains (c # s) sub = (prefix sub (c # s) \<or> contains s sub)"

section \<open>utils/formatters.py\<close>

definition ensure_markdown_headings :: "string \<Rightarrow> string" where
  "ensure_markdown_headings text =
     (if text = [] then text
      else let stripped = lstrip text
           in if startswith stripped ''#'' then text
              else ''### Answer'' @ [CHR 0x0A, CHR 0x0A] @ text)"

section \<open>utils/validators.py\<close>

text \<open>
  The argument of \<open>validate_text_input\<close> is annotated \<open>str\<close>, and the function tests it
  against \<open>None\<close> and \<open>isinstance(text, str)\<close> all the same: \<open>PyOther\<close> stands for any
  object that is neither.
\<close>

datatype pyobj = PyNone | PyStr string | PyOther

fun validate_text_input :: "pyobj \<Rightarrow> string \<Rightarrow> bool \<times> string" where
  "validate_text_input PyNone field_name = (False, ''Please provide '' @ field_name @ ''.'')"
| "validate_text_input PyOther field_name = (False, ''The '' @ field_name @ '' must be text.'')"
| "validate_text_input (PyStr text) field_name =
     (if strip text = [] then (False, ''Please enter some '' @ field_name @ ''.'')
      else if length text > 8000
        then (False, ''The '' @ field_name @ '' is too long. Please shorten it a bit.'')
      else (True, ''''))"

section \<open>Values and exceptions\<close>

text \<open>
  What \<open>response.json()\<close> returns: \<open>None\<close>, a bool, an int, a float, a str, a list or a
  dict. A dict is an association list read with \<open>map_of\<close>. The floats are the finite ones,
  as rationals.
\<close>

datatype json =
    JNull
  | JBool bool
  | JInt int
  | JFloat rat
  | JStr string
  | JArr "json list"
  | JObj "(string \<times> json) list"

text \<open>Python's truth value of an object (\<open>if x\<close>, \<open>x or y\<close>).\<close>

fun truthy :: "json \<Rightarrow> bool" where
  "truthy JNull = False"
| "truthy (JBool b) = b"
| "truthy (JInt n) = (n \<noteq> 0)"
| "truthy (JFloat r) = (r \<noteq> 0)"
| "truthy (JStr s) = (s \<noteq> [])"
| "truthy (JArr xs) = (xs \<noteq> [])"
| "truthy (JObj kvs) = (kvs \<noteq> [])"

fun type_name :: "json \<Rightarrow> string" where
  "type_name JNull = ''NoneType''"
| "type_name (JBool b) = ''bool''"
| "type_name (JInt n) = ''int''"
| "type_name (JFloat r) = ''float''"
| "type_name (JStr s) = ''str''"
| "type_name (JArr xs) = ''list''"
| "type_name (JObj kvs) = ''dict''"

text \<open>\<open>d.get(key, default)\<close> on a dict.\<close>

definition dict_get :: "(string \<times> json) list \<Rightarrow> string \<Rightarrow> json \<Rightarrow> json" where
  "dict_get d key dflt = (case map_of d key of None \<Rightarrow> dflt | Some v \<Rightarrow> v)"

text \<open>
  An exception is an \<open>LLMError\<close>, with its message and its \<open>is_model_error\<close> attribute, or
  any other Python exception, with the name of its class and the text \<open>str(exc)\<close> gives.
\<close>

datatype exn =
    LLMError string bool
  | PyError string string

fun exn_str :: "exn \<Rightarrow> string" where
  "exn_str (LLMError msg is_model_error) = msg"
| "exn_str (PyError cls msg) = msg"

definition no_attribute :: "json \<Rightarrow> string \<Rightarrow> exn" where
  "no_attribute v attr =
     PyError ''AttributeError''
       ([CHR 0x27] @ type_name v @ [CHR 0x27] @ '' object has no attribute '' @
        [CHR 0x27] @ attr @ [CHR 0x27])"

text \<open>The decimal numeral an f-string prints for an int.\<close>

function str_nat :: "nat \<Rightarrow> string" where
  "str_nat n =
     (if n < 10 then [char_of (48 + n)]
      else str_nat (n div 10) @ [char_of (48 + n mod 10)])"
  by pat_completeness auto
termination
  by (relation "measure id") auto

declare str_nat.simps [simp del]

definition str_int :: "int \<Rightarrow> string" where
  "str_int i = (if i < 0 then ''-'' @ str_nat (nat (- i)) else str_nat (nat i))"

section \<open>services/openrouter_client.py\<close>

definition FALLBACK_MODELS :: "string list" where
  "FALLBACK_MODELS =
     [''xiaomi/mimo-v2-flash:free'',
      ''mistralai/devstral-2-2512:free'',
      ''tngtech/deepseek-r1t2-chimera:free'']"

text \<open>
  The request \<open>requests.post\<close> sends (the URL and the other headers are constants) and what
  comes back: one of the three \<open>except\<close> clauses around the call, or a response.
  \<open>json_body\<close> is what \<open>response.json()\<close> gives: the value, or \<open>Inl\<close> the text of the
  exception it raises.
\<close>

record request =
  authorization :: string
  req_model :: string
  req_messages :: "(string \<times> string) list"
  temperature :: rat
  max_tokens :: nat

record response =
  status_code :: int
  json_body :: "string + json"
  resp_text :: string

datatype post_result =
    ConnectionError
  | Timeout
  | PostException string
  | Response response

definition valid_prefixes :: "string list" where
  "valid_prefixes = [''sk-or-v1-'', ''sk-or-v1'', ''sk-'']"

definition key_required_msg :: string where
  "key_required_msg =
     ''OpenRouter API key is required. Please set it in the .env file or environment variables.''"

definition key_format_msg :: string where
  "key_format_msg =
     ''Invalid API key format. OpenRouter API keys should start with 'sk-or-v1-' or 'sk-'. '' @
     ''Please check your .env file and get a valid key from https://openrouter.ai/keys''"

definition auth_failed_msg :: string where
  "auth_failed_msg =
     ''Authentication failed. Your OpenRouter API key is invalid or expired. '' @
     ''Please check your `.env` file and ensure the key starts with 'sk-or-v1-'. '' @
     ''Get a new key at: https://openrouter.ai/keys''"

definition rate_limit_msg :: string where
  "rate_limit_msg = ''Rate limit exceeded. Please wait a moment and try again.''"

definition generic_auth_msg :: string where
  "generic_auth_msg = ''API authentication error. Please check your API key in the .env file.''"

text \<open>
  The \<open>try\<close> block of the non-200 branch: any exception in it (a body that is not JSON,
  \<open>.get\<close> on a value that is not a dict) leaves \<open>response.text\<close> (\<open>resp_text\<close>).
\<close>

definition extract_error_msg :: "response \<Rightarrow> json" where
  "extract_error_msg r =
     (case json_body r of
        Inl exc \<Rightarrow> JStr (resp_text r)
      | Inr (JObj data) \<Rightarrow>
          (case dict_get data ''error'' (JObj []) of
             JObj err \<Rightarrow>
               (let m1 = dict_get err ''message'' (JStr [])
                in if truthy m1 then m1
                   else let m2 = dict_get data ''message'' (JStr [])
                        in if truthy m2 then m2 else JStr (resp_text r))
           | other \<Rightarrow> JStr (resp_text r))
      | Inr other \<Rightarrow> JStr (resp_text r))"

definition error_response :: "response \<Rightarrow> exn" where
  "error_response r =
     (let error_msg = extract_error_msg r
      in if status_code r = 401 then LLMError auth_failed_msg False
         else if status_code r = 429 then LLMError rate_limit_msg False
         else (case error_msg of
                 JStr m \<Rightarrow>
                   (let error_lower = lower m;
                        is_model_error =
                          (contains error_lower ''model'' \<and>
                           (contains error_lower ''not found'' \<or> contains error_lower ''invalid''));
                        user_friendly_msg =
                          (if contains error_lower ''key'' \<or> contains error_lower ''api''
                              \<or> contains error_lower ''auth''
                           then generic_auth_msg else m)
                    in LLMError
                         (''OpenRouter API error (status '' @ str_int (status_code r) @ ''): '' @
                          user_friendly_msg)
                         is_model_error)
               | other \<Rightarrow> no_attribute other ''lower''))"

text \<open>
  The 200 branch. \<open>choices[0]\<close> is defined on a non-empty list and on a non-empty str (its
  first character); a dict has no key \<open>0\<close> and a number cannot be indexed. The content is
  returned when it is truthy, whatever its type.
\<close>

definition first_choice :: "json \<Rightarrow> exn + json" where
  "first_choice choices =
     (case choices of
        JArr (c # cs) \<Rightarrow> Inr c
      | JStr (c # cs) \<Rightarrow> Inr (JStr [c])
      | JObj kvs \<Rightarrow> Inl (PyError ''KeyError'' ''0'')
      | other \<Rightarrow>
          Inl (PyError ''TypeError''
                ([CHR 0x27] @ type_name other @ [CHR 0x27] @ '' object is not subscriptable'')))"

definition success_response :: "response \<Rightarrow> exn + json" where
  "success_response r =
     (case json_body r of
        Inl exc \<Rightarrow> Inl (LLMError (''Failed to parse response from OpenRouter: '' @ exc) False)
      | Inr (JObj data) \<Rightarrow>
          (let choices = dict_get data ''choices'' (JArr [])
           in if \<not> truthy choices
              then Inl (LLMError ''Received an empty response from OpenRouter.'' False)
              else (case first_choice choices of
                      Inl e \<Rightarrow> Inl e
                    | Inr (JObj choice) \<Rightarrow>
                        (case dict_get choice ''message'' (JObj []) of
                           JObj message \<Rightarrow>
                             (let txt = dict_get message ''content'' JNull
                              in if \<not> truthy txt
                                 then Inl (LLMError ''Received an empty response from the LLM.'' False)
                                 else Inr txt)
                         | other \<Rightarrow> Inl (no_attribute other ''get''))
                    | Inr other \<Rightarrow> Inl (no_attribute other ''get'')))
      | Inr other \<Rightarrow> Inl (no_attribute other ''get''))"

text \<open>
  \<open>openrouter_chat\<close>, with the network as the function \<open>post\<close>. The key is a str (the
  caller passes the empty str when there is none).
\<close>

definition openrouter_chat ::
  "(request \<Rightarrow> post_result) \<Rightarrow> (string \<times> string) list \<Rightarrow> string \<Rightarrow> string \<Rightarrow> exn + json" where
  "openrouter_chat post messages api_key model =
     (if api_key = [] \<or> strip api_key = [] then Inl (LLMError key_required_msg False)
      else let api_key_clean = strip api_key
           in if \<not> list_ex (\<lambda>prefix. startswith api_key_clean prefix) valid_prefixes
              then Inl (LLMError key_format_msg False)
              else if messages = []
              then Inl (LLMError ''Messages list is empty. Cannot generate a response.'' False)
              else (case post \<lparr>authorization = ''Bearer '' @ api_key, req_model = model,
                               req_messages = messages, temperature = 1 / 2,
                               max_tokens = 700\<rparr> of
                      ConnectionError \<Rightarrow>
                        Inl (LLMError
                          ''Could not connect to OpenRouter API. Please check your internet connection.''
                          False)
                    | Timeout \<Rightarrow>
                        Inl (LLMError ''The request to OpenRouter timed out. Please try again.'' False)
                    | PostException exc \<Rightarrow>
                        Inl (LLMError (''Unexpected error while calling OpenRouter: '' @ exc) False)
                    | Response r \<Rightarrow>
                        if status_code r \<noteq> 200 then Inl (error_response r)
                        else success_response r))"

text \<open>
  A message of the session's list, as \<open>add_message\<close> builds it: the key \<open>images\<close> is set
  only for a non-empty list, so the empty list stands for its absence.
\<close>

record chat_message =
  role :: string
  content :: string
  images :: "string list"

definition default_system_message :: string where
  "default_system_message =
     ''You are StudyBuddy AI, a friendly and patient tutor helping students learn.''"

text \<open>The loop over \<open>chat_history\<close> that fills \<open>messages\<close>.\<close>

fun add_history :: "chat_message list \<Rightarrow> (string \<times> string) list \<Rightarrow> (string \<times> string) list" where
  "add_history [] messages = messages"
| "add_history (msg # rest) messages =
     (if (role msg = ''user'' \<or> role msg = ''assistant'') \<and> content msg \<noteq> []
      then add_history rest (messages @ [(role msg, content msg)])
      else add_history rest messages)"

definition build_messages :: "string \<Rightarrow> chat_message list \<Rightarrow> string \<Rightarrow> (string \<times> string) list" where
  "build_messages prompt chat_history system_message =
     (let messages = (if system_message \<noteq> [] then [(''system'', system_message)] else []);
          messages = add_history chat_history messages
      in messages @ [(''user'', prompt)])"

text \<open>
  The fallback plan. \<open>extend_plan\<close> is the loop of the \<open>else\<close> branch, over the fallback
  models still to visit.
\<close>

fun extend_plan :: "string \<Rightarrow> string list \<Rightarrow> string list \<Rightarrow> string list" where
  "extend_plan model [] models_to_try = models_to_try"
| "extend_plan model (fallback # rest) models_to_try =
     (if fallback \<noteq> model \<and> fallback \<notin> set models_to_try
      then extend_plan model rest (models_to_try @ [fallback])
      else extend_plan model rest models_to_try)"

definition models_to_try :: "string \<Rightarrow> string list" where
  "models_to_try model =
     (if model \<notin> set FALLBACK_MODELS then [model] @ FALLBACK_MODELS
      else extend_plan model FALLBACK_MODELS [model])"

text \<open>What follows the loop: the composite error, which names the length of the plan.\<close>

definition all_failed :: "string list \<Rightarrow> exn option \<Rightarrow> exn" where
  "all_failed plan last_error =
     (case last_error of
        Some e \<Rightarrow>
          LLMError (''Failed to generate response after trying '' @ str_nat (length plan) @
                    '' model(s). Last error: '' @ exn_str e) False
      | None \<Rightarrow> LLMError ''Failed to generate response from OpenRouter.'' False)"

text \<open>
  \<open>ensure_markdown_headings(raw)\<close> on what \<open>openrouter_chat\<close> returned, a truthy value:
  a value that is not a str has no \<open>lstrip\<close>.
\<close>

definition normalise :: "json \<Rightarrow> exn + string" where
  "normalise raw =
     (case raw of
        JStr t \<Rightarrow> Inr (ensure_markdown_headings t)
      | other \<Rightarrow> Inl (no_attribute other ''lstrip''))"

text \<open>
  The loop over the plan. \<open>chat\<close> is \<open>openrouter_chat\<close> at the messages and key of this
  call; \<open>tried\<close> collects the models it was called with. The result is the list of models
  tried and what the function returns or raises. An exception that is not an \<open>LLMError\<close>
  is not caught. An \<open>LLMError\<close> with \<open>is_model_error\<close> on a model equal to the last of the
  plan neither continues nor breaks: the loop goes on with what remains.
\<close>

fun try_models ::
  "(string \<Rightarrow> exn + json) \<Rightarrow> string list \<Rightarrow> string list \<Rightarrow> exn option \<Rightarrow> string list
     \<Rightarrow> string list \<times> (exn + string)" where
  "try_models chat plan [] last_error tried = (tried, Inl (all_failed plan last_error))"
| "try_models chat plan (model_to_try # rest) last_error tried =
     (case chat model_to_try of
        Inr raw \<Rightarrow> (tried @ [model_to_try], normalise raw)
      | Inl (LLMError msg is_model_error) \<Rightarrow>
          (if is_model_error \<and> model_to_try \<noteq> last plan
           then try_models chat plan rest (Some (LLMError msg is_model_error))
                  (tried @ [model_to_try])
           else if \<not> is_model_error
           then (tried @ [model_to_try],
                 Inl (all_failed plan (Some (LLMError msg is_model_error))))
           else try_models chat plan rest (Some (LLMError msg is_model_error))
                  (tried @ [model_to_try]))
      | Inl (PyError cls msg) \<Rightarrow> (tried @ [model_to_try], Inl (PyError cls msg)))"

definition generate_llm_response ::
  "(request \<Rightarrow> post_result) \<Rightarrow> string \<Rightarrow> string \<Rightarrow> string \<Rightarrow> chat_message list \<Rightarrow> string
     \<Rightarrow> string list \<times> (exn + string)" where
  "generate_llm_response post prompt api_key model chat_history system_message =
     (if prompt = [] \<or> strip prompt = []
      then ([], Inl (LLMError ''Prompt is empty. Cannot generate a response.'' False))
      else let messages = build_messages prompt chat_history system_message;
               plan = models_to_try model
           in try_models (\<lambda>model_to_try. openrouter_chat post messages api_key model_to_try)
                plan plan None [])"

section \<open>prompts/templates.py\<close>

abbreviation NL :: string where
  "NL \<equiv> [CHR 0x0A]"

text \<open>\<open>sep.join(lines)\<close>.\<close>

fun join :: "string \<Rightarrow> string list \<Rightarrow> string" where
  "join sep [] = []"
| "join sep [x] = x"
| "join sep (x # y # ys) = x @ sep @ join sep (y # ys)"

text \<open>
  An entry of the legacy chat history, as \<open>add_chat_message\<close> builds it: a dict with the
  keys \<open>user\<close> and \<open>assistant\<close>.
\<close>

record exchange =
  ex_user :: string
  ex_assistant :: string

fun history_lines :: "exchange list \<Rightarrow> string list \<Rightarrow> string list" where
  "history_lines [] lines = lines"
| "history_lines (msg # rest) lines =
     (let lines = (if ex_user msg \<noteq> [] then lines @ [''Student: '' @ ex_user msg] else lines);
          lines = (if ex_assistant msg \<noteq> [] then lines @ [''Tutor: '' @ ex_assistant msg]
                   else lines)
      in history_lines rest lines)"

definition format_chat_history :: "exchange list \<Rightarrow> string" where
  "format_chat_history chat_history =
     (if chat_history = [] then []
      else let recent = drop (length chat_history - 3) chat_history
           in join NL (history_lines recent []))"

definition explain_instructions :: string where
  "explain_instructions =
     ''Explain the topic step by step in simple language. '' @
     ''Use short sentences, everyday examples, and clear headings.''"

definition task_instructions :: "(string \<times> string) list" where
  "task_instructions =
     [(''Explain'', explain_instructions),
      (''Examples'',
         ''Provide several practical examples that illustrate the main ideas. '' @
         ''Start with very easy examples, then slightly harder ones.''),
      (''Practice Questions'',
         ''Create 3'' @ [CHR 0xE2, CHR 0x80, CHR 0x93] @
         ''7 practice questions with answers and brief explanations. '' @
         ''Include a mix of easy and moderate questions.''),
      (''Quiz'',
         ''Create a short quiz of 5 questions. '' @
         ''Show the correct answers and short explanations at the end.''),
      (''Study Plan'',
         ''Create a clear, structured study plan with daily or weekly steps, '' @
         ''estimated time, and learning goals for each step.'')]"

text \<open>
  \<open>student_level\<close> and \<open>task_type\<close> are strs; \<open>None\<close> is falsy as the empty str is, and
  takes the same default.
\<close>

definition build_text_tutor_prompt :: "string \<Rightarrow> string \<Rightarrow> string \<Rightarrow> exchange list \<Rightarrow> string" where
  "build_text_tutor_prompt user_input student_level task_type chat_history =
     (let level = strip (if student_level \<noteq> [] then student_level else ''Beginner'');
          task = strip (if task_type \<noteq> [] then task_type else ''Explain'');
          base_instructions =
            NL @ ''You are **StudyBuddy AI**, a friendly and patient tutor helping a '' @
            lower level @ '' student.'' @ NL @ NL @
            ''Student level: '' @ level @ NL @
            ''Requested task type: '' @ task @ NL;
          task_text =
            (case map_of task_instructions task of
               Some instructions \<Rightarrow> instructions
             | None \<Rightarrow> the (map_of task_instructions ''Explain''));
          history_text = format_chat_history chat_history;
          history_block =
            (if history_text \<noteq> []
             then ''Previous conversation:'' @ NL @ history_text @ NL @ NL else [])
      in base_instructions @ NL @
         history_block @
         ''Your job:'' @ NL @
         task_text @ NL @ NL @
         ''Student's question or topic:'' @ NL @
         user_input @ NL @ NL @
         ''Please respond in Markdown with:'' @ NL @
         ''- Clear headings (### ...)'' @ NL @
         ''- Bullet points for lists'' @ NL @
         ''- Step-by-step explanations where helpful'' @ NL @
         ''- A short recap section at the end titled 'Summary'' @ [CHR 0x27] @ NL)"

definition build_image_solver_prompt :: "string \<Rightarrow> bool \<Rightarrow> string" where
  "build_image_solver_prompt ocr_text is_question =
     (let mode_text =
            (if is_question
             then ''The text below is a question or problem that the student wants you to solve.''
             else ''The text below contains notes or textbook-style explanations '' @
                  ''that the student wants you to explain.'');
          task_text =
            (if is_question
             then ''1. Briefly restate what the question is asking.'' @ NL @
                  ''2. Solve it step by step, showing your reasoning.'' @ NL @
                  ''3. Explain each step in simple, beginner-friendly language.'' @ NL @
                  ''4. If there are formulas, name and explain them.'' @ NL @
                  ''5. Finish with a short recap of the main idea.''
             else ''1. Identify the main ideas and key concepts.'' @ NL @
                  ''2. Explain each part in simple, clear language.'' @ NL @
                  ''3. Use headings and bullet points to organize the explanation.'' @ NL @
                  ''4. Add a short recap of the big picture at the end.'')
      in ''You are **StudyBuddy AI**, a friendly tutor.'' @ NL @ NL @
         mode_text @ NL @ NL @
         ''Here is the text extracted from the student's image:'' @ NL @
         ''-----'' @ NL @
         ocr_text @ NL @
         ''-----'' @ NL @ NL @
         ''Your tasks:'' @ NL @
         task_text @ NL @ NL @
         ''Respond in Markdown with clear headings and bullet points.'')"

section \<open>utils/state.py\<close>

text \<open>
  The two lists of \<open>st.session_state\<close>. \<open>init_chat_state\<close> creates them when they are
  missing, so every function below finds both.
\<close>

record session =
  messages :: "chat_message list"
  chat_history :: "exchange list"

definition add_message :: "string \<Rightarrow> string \<Rightarrow> string list \<Rightarrow> session \<Rightarrow> session" where
  "add_message r c imgs st =
     st\<lparr>messages := messages st @ [\<lparr>role = r, content = c, images = imgs\<rparr>]\<rparr>"

definition add_chat_message :: "string \<Rightarrow> string \<Rightarrow> session \<Rightarrow> session" where
  "add_chat_message user_input assistant_response st =
     st\<lparr>chat_history := chat_history st @
          [\<lparr>ex_user = user_input, ex_assistant = assistant_response\<rparr>]\<rparr>"

definition clear_chat_history :: "session \<Rightarrow> session" where
  "clear_chat_history st = st\<lparr>chat_history := [], messages := []\<rparr>"

section \<open>utils/validators.py, utils/image_fetcher.py, utils/ocr.py\<close>

text \<open>An uploaded file: its \<open>name\<close> and the bytes \<open>read()\<close> gives.\<close>

record uploaded_file =
  file_name :: string
  file_bytes :: string

definition validate_image_file :: "uploaded_file option \<Rightarrow> bool \<times> string" where
  "validate_image_file file_obj =
     (case file_obj of
        None \<Rightarrow> (False, ''Please upload an image first.'')
      | Some f \<Rightarrow>
          (let filename = file_name f;
               allowed_ext = [''.jpg'', ''.jpeg'', ''.png'']
           in if \<not> list_ex (\<lambda>ext. endswith (lower filename) ext) allowed_ext
              then (False, ''Unsupported file type. Please upload a JPG or PNG image.'')
              else (True, '''')))"

definition image_keywords :: "string list" where
  "image_keywords =
     [''show me an image'', ''show me a picture'', ''show me a photo'',
      ''give me an image'', ''give me a picture'', ''give me a photo'',
      ''display an image'', ''display a picture'', ''display a photo'',
      ''image of'', ''picture of'', ''photo of'',
      ''show image'', ''show picture'', ''show photo'',
      ''provide me image'', ''provide me a image'',
      ''send me image'', ''send me a image'']"

definition detect_image_request :: "string \<Rightarrow> bool" where
  "detect_image_request user_text =
     (if user_text = [] then False
      else let text_lower = lower user_text
           in list_ex (\<lambda>keyword. contains text_lower keyword) image_keywords)"

text \<open>
  What the flows take from outside: the network behind \<open>requests.post\<close>, the Wikipedia
  lookup \<open>fetch_wikipedia_images\<close>, the OCR engine behind \<open>extract_text_from_image\<close>
  (it returns the text, the empty str when it finds none, or raises), and
  \<open>extract_query\<close>, a chain of regular-expression searches whose result the flows pass
  on without looking into it.
\<close>

record world =
  w_post :: "request \<Rightarrow> post_result"
  w_extract_query :: "string \<Rightarrow> string"
  w_wikipedia_images :: "string \<Rightarrow> nat \<Rightarrow> string list"
  w_ocr_engine :: "string \<Rightarrow> exn + string"

definition fetch_images :: "world \<Rightarrow> string \<Rightarrow> nat \<Rightarrow> string list \<times> string" where
  "fetch_images w query limit =
     (if query = [] then ([], ''none'')
      else let imgs = w_wikipedia_images w query limit
           in if imgs \<noteq> [] then (imgs, ''wikipedia'') else ([], ''none''))"

definition extract_text_from_image :: "world \<Rightarrow> string \<Rightarrow> exn + string" where
  "extract_text_from_image w image_bytes =
     (if image_bytes = [] then Inl (PyError ''RuntimeError'' ''No image data provided for OCR.'')
      else w_ocr_engine w image_bytes)"

text \<open>
  \<open>str.title\<close>, on the ASCII letters: a letter after a letter is lowered, any other letter
  is raised. The flows apply it to the source tag of \<open>fetch_images\<close> only.
\<close>

definition is_alpha :: "char \<Rightarrow> bool" where
  "is_alpha c =
     (let n = (of_char c :: nat) in (65 \<le> n \<and> n \<le> 90) \<or> (97 \<le> n \<and> n \<le> 122))"

definition upper_char :: "char \<Rightarrow> char" where
  "upper_char c =
     (let n = (of_char c :: nat) in if 97 \<le> n \<and> n \<le> 122 then char_of (n - 32) else c)"

fun title_from :: "bool \<Rightarrow> string \<Rightarrow> string" where
  "title_from previous_is_cased [] = []"
| "title_from previous_is_cased (c # cs) =
     (if previous_is_cased then lower_char c else upper_char c) # title_from (is_alpha c) cs"

definition title :: "string \<Rightarrow> string" where
  "title s = title_from False s"

section \<open>backend/controller.py\<close>

text \<open>
  What an invocation of a flow does that can be seen from outside, in order: the calls of
  the UI module, \<open>st.rerun()\<close>, the image lookup, the OCR call, and the call of
  \<open>generate_llm_response\<close> (its prompt and the models \<open>openrouter_chat\<close> was called with).
\<close>

datatype event =
    ShowWarning string
  | ShowError string
  | ShowMarkdownSection string string
  | Rerun
  | FetchImages string
  | ExtractText
  | ModelCall string "string list"

fun is_model_call :: "event \<Rightarrow> bool" where
  "is_model_call (ModelCall prompt tried) = True"
| "is_model_call e = False"

text \<open>
  The exit an invocation of \<open>_handle_text_chat_tab\<close> takes: the clear button, no input,
  the \<open>return\<close> after the validation warning, a \<open>return\<close> after \<open>ui.show_error\<close>, or the
  \<open>st.rerun()\<close> that ends the function.
\<close>

datatype flow_end = Cleared | NoInput | Rejected | Failed | Completed

record text_chat_ui =
  ui_student_level :: string
  ui_task_type :: string
  ui_user_input :: "string option"
  ui_clear_clicked :: bool

definition cross_mark :: string where
  "cross_mark = [CHR 0xE2, CHR 0x9D, CHR 0x8C]"

text \<open>The message each \<open>except Exception\<close> around a model call shows.\<close>

definition model_error_message :: "exn \<Rightarrow> string" where
  "model_error_message exc =
     (let error_msg = exn_str exc
      in if contains error_msg ''401'' \<or> contains (lower error_msg) ''authentication''
            \<or> contains (lower error_msg) ''invalid''
         then cross_mark @ '' Authentication failed. Please check your API key in the .env file.''
         else cross_mark @ '' Something went wrong while talking to the AI. Please try again.'')"

definition no_images_notice :: string where
  "no_images_notice =
     ''I couldn't find images for your request. Let me provide a text explanation instead.''"

text \<open>
  \<open>_handle_text_chat_tab\<close>. \<open>chat_history_for_llm\<close> is the session's own message list, not
  a copy, so the model call sees the messages appended before it.
\<close>

definition handle_text_chat_tab ::
  "world \<Rightarrow> string \<Rightarrow> string \<Rightarrow> text_chat_ui \<Rightarrow> session \<Rightarrow> session \<times> event list \<times> flow_end" where
  "handle_text_chat_tab w api_key model ui_data st =
     (if ui_clear_clicked ui_data then (clear_chat_history st, [Rerun], Cleared)
      else case ui_user_input ui_data of
        None \<Rightarrow> (st, [], NoInput)
      | Some [] \<Rightarrow> (st, [], NoInput)
      | Some (c # cs) \<Rightarrow>
         (let user_text = c # cs;
              (is_valid, error_msg) = validate_text_input (PyStr user_text) ''question/topic''
          in if \<not> is_valid then (st, [ShowWarning error_msg], Rejected)
             else
              let st = add_message ''user'' user_text [] st
              in if detect_image_request user_text
                 then
                   (let query = w_extract_query w user_text;
                        (image_urls, source) = fetch_images w query 3
                    in if image_urls \<noteq> []
                       then
                         (let info_prompt =
                                ''Provide a brief (2-3 sentence) informative response about: '' @
                                query @ ''. '' @
                                ''Keep it concise since images will also be shown.'';
                              (tried, result) =
                                generate_llm_response (w_post w) info_prompt api_key model
                                  (messages st) default_system_message;
                              text_response =
                                (case result of
                                   Inr t \<Rightarrow> t
                                 | Inl exc \<Rightarrow> ''Here are images related to '' @ query @ ''.'');
                              source_note =
                                (if source \<noteq> ''none''
                                 then NL @ NL @ ''*Images from '' @ title source @ ''*'' else []);
                              response_content = text_response @ source_note;
                              st = add_message ''assistant'' response_content image_urls st
                          in (st, [FetchImages query, ModelCall info_prompt tried, Rerun], Completed))
                       else
                         (let st = add_message ''assistant'' no_images_notice [] st;
                              prompt = build_text_tutor_prompt user_text (ui_student_level ui_data)
                                         (ui_task_type ui_data) (chat_history st);
                              (tried, result) =
                                generate_llm_response (w_post w) prompt api_key model
                                  (messages st) default_system_message
                          in case result of
                               Inr response \<Rightarrow>
                                 (add_message ''assistant'' response [] st,
                                  [FetchImages query, ModelCall prompt tried, Rerun], Completed)
                             | Inl exc \<Rightarrow>
                                 (st, [FetchImages query, ModelCall prompt tried,
                                       ShowError (model_error_message exc)], Failed)))
                 else
                   (let prompt = build_text_tutor_prompt user_text (ui_student_level ui_data)
                                   (ui_task_type ui_data) (chat_history st);
                        (tried, result) =
                          generate_llm_response (w_post w) prompt api_key model
                            (messages st) default_system_message
                    in case result of
                         Inl exc \<Rightarrow>
                           (st, [ModelCall prompt tried, ShowError (model_error_message exc)], Failed)
                       | Inr response \<Rightarrow>
                           (let st = add_message ''assistant'' response [] st;
                                st = add_chat_message user_text response st
                            in (st, [ModelCall prompt tried, Rerun], Completed)))))"

record image_solver_ui =
  ui_uploaded_file :: "uploaded_file option"
  ui_is_question :: bool
  ui_solve_clicked :: bool

definition no_text_warning :: string where
  "no_text_warning =
     ''I couldn't detect any readable text in the image. Please try a clearer photo.''"

text \<open>
  \<open>_handle_image_solver_tab\<close>: no session state, the events only. A file that passed
  \<open>validate_image_file\<close> is not \<open>None\<close>, so the \<open>None\<close> case after the validation is
  never taken.
\<close>

definition handle_image_solver_tab ::
  "world \<Rightarrow> string \<Rightarrow> string \<Rightarrow> image_solver_ui \<Rightarrow> event list" where
  "handle_image_solver_tab w api_key model ui_data =
     (if \<not> ui_solve_clicked ui_data then []
      else let (is_valid, error_msg) = validate_image_file (ui_uploaded_file ui_data)
           in if \<not> is_valid then [ShowWarning error_msg]
              else case ui_uploaded_file ui_data of
                None \<Rightarrow> [ShowWarning error_msg]
              | Some f \<Rightarrow>
                 (case extract_text_from_image w (file_bytes f) of
                    Inl exc \<Rightarrow>
                      [ExtractText,
                       ShowError (cross_mark @ '' Could not read the image: '' @ exn_str exc)]
                  | Inr ocr_text \<Rightarrow>
                      if ocr_text = [] \<or> strip ocr_text = []
                      then [ExtractText, ShowWarning no_text_warning]
                      else
                        (let prompt = build_image_solver_prompt ocr_text (ui_is_question ui_data);
                             (tried, result) =
                               generate_llm_response (w_post w) prompt api_key model []
                                 default_system_message
                         in case result of
                              Inl exc \<Rightarrow>
                                [ExtractText, ModelCall prompt tried,
                                 ShowError (model_error_message exc)]
                            | Inr response \<Rightarrow>
                                (let combined =
                                       ''### Extracted Text'' @ NL @ NL @ ocr_text @ NL @ NL @
                                       ''---'' @ NL @ NL @ ''### AI Explanation'' @ NL @ NL @ response
                                 in [ExtractText, ModelCall prompt tried,
                                     ShowMarkdownSection
                                       ([CHR 0xF0, CHR 0x9F, CHR 0x93, CHR 0x9D] @ '' Explanation'')
                                       combined]))))"

section \<open>Example inputs\<close>

text \<open>An endpoint that answers every request with status 401.\<close>

definition unauthorized :: "request \<Rightarrow> post_result" where
  "unauthorized req =
     Response \<lparr>status_code = 401,
               json_body = Inr (JObj [(''error'',
                             JObj [(''message'', JStr ''No auth credentials found'')])]),
               resp_text = []\<rparr>"

text \<open>An endpoint that does not know the model \<open>my/model\<close> and answers for every other one.\<close>

definition first_model_missing :: "request \<Rightarrow> post_result" where
  "first_model_missing req =
     (if req_model req = ''my/model''
      then Response \<lparr>status_code = 404,
                     json_body = Inr (JObj [(''error'',
                                   JObj [(''message'', JStr ''Model my/model not found'')])]),
                     resp_text = []\<rparr>
      else Response \<lparr>status_code = 200,
                     json_body = Inr (JObj [(''choices'',
                                   JArr [JObj [(''message'',
                                     JObj [(''content'', JStr ''Plants make food'')])]])]),
                     resp_text = []\<rparr>)"

text \<open>An endpoint that answers every request with one completion.\<close>

definition tutor_endpoint :: "request \<Rightarrow> post_result" where
  "tutor_endpoint req =
     Response \<lparr>status_code = 200,
               json_body = Inr (JObj [(''choices'',
                             JArr [JObj [(''message'',
                               JObj [(''content'', JStr ''Plants make food'')])]])]),
               resp_text = []\<rparr>"

text \<open>A world with that endpoint, no image for any query, and an OCR engine that reads
  only white space.\<close>

definition stub_world :: world where
  "stub_world =
     \<lparr>w_post = tutor_endpoint,
      w_extract_query = (\<lambda>user_text. ''Isaac Newton''),
      w_wikipedia_images = (\<lambda>query limit. []),
      w_ocr_engine = (\<lambda>image_bytes. Inr [CHR '' '', CHR 0x0A])\<rparr>"

text \<open>Two inputs of the chat tab, an empty session, and an input of the image tab.\<close>

definition image_request :: text_chat_ui where
  "image_request =
     \<lparr>ui_student_level = ''Beginner'', ui_task_type = ''Explain'',
      ui_user_input = Some ''show me an image of Isaac Newton'', ui_clear_clicked = False\<rparr>"

definition plain_request :: text_chat_ui where
  "plain_request =
     \<lparr>ui_student_level = ''Beginner'', ui_task_type = ''Explain'',
      ui_user_input = Some ''Explain photosynthesis'', ui_clear_clicked = False\<rparr>"

definition empty_session :: session where
  "empty_session = \<lparr>messages = [], chat_history = []\<rparr>"

definition solve_request :: image_solver_ui where
  "solve_request =
     \<lparr>ui_uploaded_file = Some \<lparr>file_name = ''notes.PNG'', file_bytes = ''bytes''\<rparr>,
      ui_is_question = True, ui_solve_clicked = True\<rparr>"

section \<open>Strings\<close>

lemma strip_nonempty: "strip s \<noteq> [] \<Longrightarrow> s \<noteq> []"
  by (auto simp: strip_def lstrip_def rstrip_def)

lemma contains_sublist: "contains s sub \<longleftrightarrow> sublist sub s"
  by (induction s) (auto simp: sublist_Cons_right)

lemma contains_append: "contains (a @ sub @ b) sub"
  by (simp add: contains_sublist)

section \<open>The response normaliser\<close>

text \<open>
  C6. \<open>ensure_markdown_headings\<close> is idempotent: applied to its own result, it returns
  that result unchanged, for every string.
\<close>

theorem ensure_markdown_headings_idempotent:
  "ensure_markdown_headings (ensure_markdown_headings x) = ensure_markdown_headings x"
  by (simp add: ensure_markdown_headings_def Let_def lstrip_def startswith_def is_space_def)

section \<open>Input validation\<close>

text \<open>
  C9, as the code has it. \<open>validate_text_input\<close> rejects \<open>None\<close> with a message that
  contains the field name, rejects a string that is empty after trimming, rejects a string
  of 8001 characters or more that is not blank with a message that contains
  \<open>too long\<close>, accepts \<open>ok\<close> with the empty message, and accepts a string exactly when it
  is non-empty after trimming and at most 8000 characters long.
\<close>

theorem validate_text_input_cases:
  "(\<exists>msg. validate_text_input PyNone f = (False, msg) \<and> contains msg f) \<and>
   (strip s = [] \<longrightarrow> \<not> fst (validate_text_input (PyStr s) f)) \<and>
   (strip t \<noteq> [] \<and> 8001 \<le> length t \<longrightarrow>
      (\<exists>msg. validate_text_input (PyStr t) f = (False, msg) \<and> contains msg ''too long'')) \<and>
   validate_text_input (PyStr ''ok'') f = (True, []) \<and>
   (fst (validate_text_input (PyStr u) f) \<longleftrightarrow> strip u \<noteq> [] \<and> length u \<le> 8000)"
proof -
  have a: "contains (''Please provide '' @ f @ ''.'') f"
    by (rule contains_append)
  have "contains ((''The '' @ f @ '' is '') @ ''too long'' @ ''. Please shorten it a bit.'')
          ''too long''"
    by (rule contains_append)
  then have b: "contains (''The '' @ f @ '' is too long. Please shorten it a bit.'') ''too long''"
    by simp
  have c: "strip ''ok'' \<noteq> []"
    by (simp add: strip_def lstrip_def rstrip_def is_space_def)
  show ?thesis using a b c by auto
qed

theorem validate_text_input_cases_witness:
  "strip ''   '' = [] \<and> \<not> fst (validate_text_input (PyStr ''   '') ''input'') \<and>
   strip (replicate 8001 CHR ''x'') \<noteq> [] \<and> 8001 \<le> length (replicate 8001 CHR ''x'') \<and>
   (\<exists>msg. validate_text_input (PyStr (replicate 8001 CHR ''x'')) ''input'' = (False, msg) \<and>
      contains msg ''too long'')"
proof -
  have 1: "strip ''   '' = []"
    by (simp add: strip_def lstrip_def rstrip_def is_space_def)
  have 2: "strip (replicate 8001 CHR ''x'') \<noteq> []"
    by (simp add: strip_def lstrip_def rstrip_def is_space_def)
  have 3: "8001 \<le> length (replicate 8001 CHR ''x'')" by simp
  show ?thesis
    using 1 2 3
      validate_text_input_cases [of "''input''" "''   ''" "replicate 8001 CHR ''x''" "''ok''"]
    by blast
qed

text \<open>
  C9, as the claim states it, fails on a blank string of 8001 characters: the blank test
  comes first, and its message does not contain \<open>too long\<close>.
\<close>

theorem validate_text_input_long_blank:
  "8001 \<le> length (replicate 8001 CHR '' '') \<and>
   validate_text_input (PyStr (replicate 8001 CHR '' '')) ''input''
     = (False, ''Please enter some input.'') \<and>
   \<not> contains ''Please enter some input.'' ''too long''"
  by (simp add: strip_def lstrip_def rstrip_def is_space_def)

section \<open>The fallback plan\<close>

lemma extend_plan_filter:
  "distinct fs \<Longrightarrow> set fs \<inter> set acc \<subseteq> {model} \<Longrightarrow>
   extend_plan model fs acc = acc @ filter (\<lambda>f. f \<noteq> model) fs"
proof (induction fs arbitrary: acc)
  case Nil
  then show ?case by simp
next
  case (Cons f rest)
  show ?case
  proof (cases "f \<noteq> model \<and> f \<notin> set acc")
    case True
    have "set rest \<inter> set (acc @ [f]) \<subseteq> {model}"
      using Cons.prems by auto
    with Cons.IH [of "acc @ [f]"] Cons.prems True show ?thesis by simp
  next
    case False
    with Cons.prems have "f = model" by auto
    moreover have "set rest \<inter> set acc \<subseteq> {model}" using Cons.prems by auto
    ultimately show ?thesis using Cons.IH [of acc] Cons.prems False by simp
  qed
qed

lemma distinct_FALLBACK_MODELS: "distinct FALLBACK_MODELS"
  by (simp add: FALLBACK_MODELS_def)

lemma models_to_try_eq: "models_to_try M = M # filter (\<lambda>f. f \<noteq> M) FALLBACK_MODELS"
proof (cases "M \<in> set FALLBACK_MODELS")
  case True
  then show ?thesis
    using extend_plan_filter [OF distinct_FALLBACK_MODELS, of "[M]" M]
    by (simp add: models_to_try_def)
next
  case False
  then have "filter (\<lambda>f. f \<noteq> M) FALLBACK_MODELS = FALLBACK_MODELS"
    by (auto simp: filter_id_conv)
  with False show ?thesis by (simp add: models_to_try_def)
qed

text \<open>
  C3. For every requested model \<open>M\<close> the plan starts with \<open>M\<close>, holds no model twice,
  holds \<open>M\<close> and every model of the priority list and nothing else, and after \<open>M\<close> lists
  the models of the priority list other than \<open>M\<close> in the order of that list.
\<close>

theorem fallback_plan:
  "hd (models_to_try M) = M \<and>
   distinct (models_to_try M) \<and>
   set (models_to_try M) = insert M (set FALLBACK_MODELS) \<and>
   tl (models_to_try M) = filter (\<lambda>f. f \<noteq> M) FALLBACK_MODELS"
  using distinct_FALLBACK_MODELS by (auto simp: models_to_try_eq)

section \<open>The key format check\<close>

lemma format_check_iff:
  "list_ex (\<lambda>prefix. startswith k prefix) valid_prefixes \<longleftrightarrow> startswith k ''sk-''"
proof -
  have "prefix ''sk-'' ''sk-or-v1-''" and "prefix ''sk-'' ''sk-or-v1''" by simp_all
  then have "prefix ''sk-or-v1-'' k \<Longrightarrow> prefix ''sk-'' k"
    and "prefix ''sk-or-v1'' k \<Longrightarrow> prefix ''sk-'' k"
    using prefix_order.trans by blast+
  then show ?thesis
    by (auto simp: valid_prefixes_def startswith_def)
qed

lemma error_response_not_format: "error_response r \<noteq> LLMError key_format_msg False"
  by (auto simp: error_response_def Let_def key_format_msg_def auth_failed_msg_def
        rate_limit_msg_def no_attribute_def split: json.splits)

lemma success_response_not_format: "success_response r \<noteq> Inl (LLMError key_format_msg False)"
  by (auto simp: success_response_def Let_def key_format_msg_def no_attribute_def first_choice_def
        split: json.splits sum.splits list.splits)

text \<open>
  C10. For a key that is not blank, \<open>openrouter_chat\<close> raises the format error exactly
  when the trimmed key does not start with \<open>sk-\<close>, whatever the network answers.
\<close>

theorem key_format_check:
  assumes "strip api_key \<noteq> []"
  shows "openrouter_chat post msgs api_key model = Inl (LLMError key_format_msg False)
           \<longleftrightarrow> \<not> startswith (strip api_key) ''sk-''"
proof -
  from assms have ne: "api_key \<noteq> []"
    by (rule strip_nonempty)
  show ?thesis
  proof (cases "startswith (strip api_key) ''sk-''")
    case False
    with assms ne show ?thesis
      by (simp add: openrouter_chat_def Let_def format_check_iff)
  next
    case True
    have "openrouter_chat post msgs api_key model \<noteq> Inl (LLMError key_format_msg False)"
      using assms ne True error_response_not_format success_response_not_format
      by (auto simp: openrouter_chat_def Let_def format_check_iff key_format_msg_def
            split: post_result.splits)
    with True show ?thesis by simp
  qed
qed

theorem key_format_check_witness:
  "strip ''sk-proj-123'' \<noteq> [] \<and> startswith (strip ''sk-proj-123'') ''sk-'' \<and>
   openrouter_chat unauthorized [(''user'', ''hi'')] ''sk-proj-123'' ''m''
     \<noteq> Inl (LLMError key_format_msg False) \<and>
   strip ''pk-123'' \<noteq> [] \<and> \<not> startswith (strip ''pk-123'') ''sk-'' \<and>
   openrouter_chat unauthorized [(''user'', ''hi'')] ''pk-123'' ''m''
     = Inl (LLMError key_format_msg False)"
proof -
  have 1: "strip ''sk-proj-123'' = ''sk-proj-123''" and 2: "strip ''pk-123'' = ''pk-123''"
    by (simp_all add: strip_def lstrip_def rstrip_def is_space_def)
  have 3: "startswith ''sk-proj-123'' ''sk-''" and 4: "\<not> startswith ''pk-123'' ''sk-''"
    by (simp_all add: startswith_def)
  show ?thesis
    using 1 2 3 4
      key_format_check [of "''sk-proj-123''" unauthorized "[(''user'', ''hi'')]" "''m''"]
      key_format_check [of "''pk-123''" unauthorized "[(''user'', ''hi'')]" "''m''"]
    by simp
qed

section \<open>The fallback loop\<close>

text \<open>
  C1, as the code has it. When the first candidate (the requested model) fails with an
  \<open>LLMError\<close> that is not a model error, no other model is tried, and the caller receives
  a new \<open>LLMError\<close>, not a model error, whose message is
  \<open>Failed to generate response after trying N model(s). Last error:\<close> followed by the message
  of that failure, \<open>N\<close> being the length of the plan. When it fails with an exception that
  is not an \<open>LLMError\<close>, no other model is tried and that exception itself reaches the
  caller.
\<close>

theorem fatal_error_stops_fallback:
  assumes "strip prompt \<noteq> []"
    and "openrouter_chat post (build_messages prompt hist sys) api_key model = Inl e"
    and "e = LLMError msg False \<or> e = PyError cls msg"
  shows "generate_llm_response post prompt api_key model hist sys =
           ([model],
            Inl (case e of
                   LLMError m flag \<Rightarrow>
                     LLMError (''Failed to generate response after trying '' @
                               str_nat (length (models_to_try model)) @
                               '' model(s). Last error: '' @ m) False
                 | PyError c m \<Rightarrow> PyError c m))"
  using assms strip_nonempty [of prompt]
  by (auto simp: generate_llm_response_def Let_def models_to_try_eq all_failed_def)

theorem fatal_error_stops_fallback_witness:
  "strip ''hi'' \<noteq> [] \<and>
   openrouter_chat unauthorized (build_messages ''hi'' [] default_system_message) ''sk-or-v1-0'' ''m''
     = Inl (LLMError auth_failed_msg False) \<and>
   generate_llm_response unauthorized ''hi'' ''sk-or-v1-0'' ''m'' [] default_system_message =
     ([''m''],
      Inl (LLMError (''Failed to generate response after trying '' @
                     str_nat (length (models_to_try ''m'')) @
                     '' model(s). Last error: '' @ auth_failed_msg) False))"
proof -
  have 1: "strip ''hi'' \<noteq> []"
    by (simp add: strip_def lstrip_def rstrip_def is_space_def)
  have 2: "openrouter_chat unauthorized (build_messages ''hi'' [] default_system_message)
             ''sk-or-v1-0'' ''m'' = Inl (LLMError auth_failed_msg False)"
    by (simp add: openrouter_chat_def unauthorized_def build_messages_def Let_def strip_def
          lstrip_def rstrip_def is_space_def valid_prefixes_def startswith_def error_response_def)
  show ?thesis
    using 1 2 fatal_error_stops_fallback [OF 1 2, of "auth_failed_msg" "''''"] by simp
qed

text \<open>
  C1, as the claim states it, fails: after a 401 on the first model the caller does not
  receive the error \<open>openrouter_chat\<close> raised but the composite one.
\<close>

theorem fatal_error_is_wrapped:
  "openrouter_chat unauthorized (build_messages ''hi'' [] default_system_message) ''sk-or-v1-0'' ''m''
     = Inl (LLMError auth_failed_msg False) \<and>
   generate_llm_response unauthorized ''hi'' ''sk-or-v1-0'' ''m'' [] default_system_message =
     ([''m''],
      Inl (LLMError (''Failed to generate response after trying 4 model(s). Last error: '' @
                     auth_failed_msg) False)) \<and>
   ''Failed to generate response after trying 4 model(s). Last error: '' @ auth_failed_msg
     \<noteq> auth_failed_msg"
  by code_simp

lemma plan_shape:
  "\<exists>b rest. models_to_try M = M # b # rest \<and> rest \<noteq> [] \<and> M \<noteq> last (b # rest)"
proof -
  have "M \<notin> set (filter (\<lambda>f. f \<noteq> M) FALLBACK_MODELS)" by simp
  moreover have "\<exists>b c rest. filter (\<lambda>f. f \<noteq> M) FALLBACK_MODELS = b # c # rest"
    by (auto simp: FALLBACK_MODELS_def)
  ultimately show ?thesis
    unfolding models_to_try_eq
    by (metis last_in_set list.distinct(1))
qed

text \<open>
  C4. When \<open>openrouter_chat\<close> fails on the first model of the plan with a model error and
  returns the text \<open>t\<close> on the second, \<open>generate_llm_response\<close> returns
  \<open>ensure_markdown_headings t\<close>, and these two models are the only ones tried.
\<close>

theorem second_candidate_answers:
  assumes "strip prompt \<noteq> []"
    and "openrouter_chat post (build_messages prompt hist sys) api_key (models_to_try model ! 0)
           = Inl (LLMError msg True)"
    and "openrouter_chat post (build_messages prompt hist sys) api_key (models_to_try model ! 1)
           = Inr (JStr t)"
  shows "generate_llm_response post prompt api_key model hist sys =
           ([models_to_try model ! 0, models_to_try model ! 1], Inr (ensure_markdown_headings t))"
proof -
  obtain b rest where plan: "models_to_try model = model # b # rest"
    and last: "model \<noteq> last (b # rest)"
    using plan_shape [of model] by blast
  from assms(1) have "prompt \<noteq> []" by (rule strip_nonempty)
  with assms plan last show ?thesis
    by (simp add: generate_llm_response_def Let_def normalise_def)
qed

theorem second_candidate_answers_witness:
  "strip ''hi'' \<noteq> [] \<and>
   models_to_try ''my/model'' ! 0 = ''my/model'' \<and>
   models_to_try ''my/model'' ! 1 = ''xiaomi/mimo-v2-flash:free'' \<and>
   generate_llm_response first_model_missing ''hi'' ''sk-or-v1-0'' ''my/model'' []
       default_system_message =
     ([''my/model'', ''xiaomi/mimo-v2-flash:free''], Inr (ensure_markdown_headings ''Plants make food''))"
proof -
  have 0: "models_to_try ''my/model'' ! 0 = ''my/model''"
    and 1: "models_to_try ''my/model'' ! 1 = ''xiaomi/mimo-v2-flash:free''"
    by (simp_all add: models_to_try_def FALLBACK_MODELS_def)
  have s: "strip ''hi'' \<noteq> []"
    by (simp add: strip_def lstrip_def rstrip_def is_space_def)
  have a: "openrouter_chat first_model_missing (build_messages ''hi'' [] default_system_message)
             ''sk-or-v1-0'' (models_to_try ''my/model'' ! 0)
           = Inl (LLMError ''OpenRouter API error (status 404): Model my/model not found'' True)"
    unfolding 0 by code_simp
  have b: "openrouter_chat first_model_missing (build_messages ''hi'' [] default_system_message)
             ''sk-or-v1-0'' (models_to_try ''my/model'' ! 1)
           = Inr (JStr ''Plants make food'')"
    unfolding 1 by code_simp
  show ?thesis
    using s 0 1 second_candidate_answers [OF s a b] by simp
qed

section \<open>Upstream error bodies\<close>

text \<open>
  C5, as the code has it. When the endpoint answers with a status other than 200 and the
  error text taken from the body is a string that contains \<open>key\<close>, \<open>api\<close> or \<open>auth\<close>
  in any letter case, \<open>openrouter_chat\<close> raises an \<open>LLMError\<close> whose message is fixed by
  the status code alone: the authentication-failure message for 401, the rate-limit message
  for 429, and for every other status \<open>OpenRouter API error (status N):\<close> followed by the
  generic authentication-error message.
\<close>

theorem upstream_body_replaced:
  assumes "startswith (strip api_key) ''sk-''"
    and "msgs \<noteq> []"
    and "status_code r \<noteq> 200"
    and "extract_error_msg r = JStr body"
    and "contains (lower body) ''key'' \<or> contains (lower body) ''api''
           \<or> contains (lower body) ''auth''"
  shows "\<exists>flag. openrouter_chat (\<lambda>req. Response r) msgs api_key model =
           Inl (LLMError
                  (if status_code r = 401 then auth_failed_msg
                   else if status_code r = 429 then rate_limit_msg
                   else ''OpenRouter API error (status '' @ str_int (status_code r) @ ''): '' @
                        generic_auth_msg)
                  flag)"
proof -
  from assms(1) have "strip api_key \<noteq> []"
    by (auto simp: startswith_def)
  then have "api_key \<noteq> []" by (rule strip_nonempty)
  with assms \<open>strip api_key \<noteq> []\<close> show ?thesis
    by (auto simp: openrouter_chat_def Let_def format_check_iff error_response_def)
qed

theorem upstream_body_replaced_witness:
  "startswith (strip ''sk-or-v1-0'') ''sk-'' \<and>
   contains (lower ''Invalid API key sk-or-v1-0'') ''key'' \<and>
   (\<exists>flag. openrouter_chat
      (\<lambda>req. Response \<lparr>status_code = 403,
                         json_body = Inr (JObj [(''error'',
                                       JObj [(''message'', JStr ''Invalid API key sk-or-v1-0'')])]),
                         resp_text = []\<rparr>)
      [(''user'', ''hi'')] ''sk-or-v1-0'' ''m'' =
    Inl (LLMError (''OpenRouter API error (status '' @ str_int 403 @ ''): '' @ generic_auth_msg) flag))"
proof -
  let ?r = "\<lparr>status_code = 403,
             json_body = Inr (JObj [(''error'',
                           JObj [(''message'', JStr ''Invalid API key sk-or-v1-0'')])]),
             resp_text = []\<rparr>"
  have 1: "startswith (strip ''sk-or-v1-0'') ''sk-''"
    by (simp add: strip_def lstrip_def rstrip_def is_space_def startswith_def)
  have 2: "[(''user'', ''hi'')] \<noteq> ([] :: (string \<times> string) list)" by simp
  have 3: "status_code ?r \<noteq> 200" by simp
  have 4: "extract_error_msg ?r = JStr ''Invalid API key sk-or-v1-0''"
    by (simp add: extract_error_msg_def dict_get_def)
  have k: "contains (lower ''Invalid API key sk-or-v1-0'') ''key''"
    by code_simp
  then have 5: "contains (lower ''Invalid API key sk-or-v1-0'') ''key''
      \<or> contains (lower ''Invalid API key sk-or-v1-0'') ''api''
      \<or> contains (lower ''Invalid API key sk-or-v1-0'') ''auth''"
    by simp
  show ?thesis
    using 1 k upstream_body_replaced [OF 1 2 3 4 5, of "''m''"] by simp
qed

text \<open>
  C5, as the claim states it, fails twice. With status 429 the message raised is the
  rate-limit one, not the generic authentication-error message. With status 500 and the
  body \<open>key\<close>, the message raised contains the body, since the generic message does.
\<close>

theorem upstream_body_counterexample:
  "openrouter_chat
     (\<lambda>req. Response \<lparr>status_code = 429,
                        json_body = Inr (JObj [(''error'',
                                      JObj [(''message'', JStr ''invalid api key'')])]),
                        resp_text = []\<rparr>)
     [(''user'', ''hi'')] ''sk-or-v1-0'' ''m''
     = Inl (LLMError rate_limit_msg False) \<and>
   \<not> contains rate_limit_msg generic_auth_msg \<and>
   contains (lower ''invalid api key'') ''key'' \<and>
   openrouter_chat
     (\<lambda>req. Response \<lparr>status_code = 500,
                        json_body = Inr (JObj [(''error'', JObj [(''message'', JStr ''key'')])]),
                        resp_text = []\<rparr>)
     [(''user'', ''hi'')] ''sk-or-v1-0'' ''m''
     = Inl (LLMError (''OpenRouter API error (status 500): '' @ generic_auth_msg) False) \<and>
   contains (lower ''key'') ''key'' \<and>
   contains (''OpenRouter API error (status 500): '' @ generic_auth_msg) ''key''"
  by code_simp

section \<open>The prompt builder\<close>

lemma task_text_explain:
  assumes "task \<notin> {''Examples'', ''Practice Questions'', ''Quiz'', ''Study Plan''}"
  shows "(case map_of task_instructions task of
            Some instructions \<Rightarrow> instructions
          | None \<Rightarrow> the (map_of task_instructions ''Explain'')) = explain_instructions"
  using assms by (simp add: task_instructions_def)

lemma strip_Explain: "strip ''Explain'' = ''Explain''"
  by (simp add: strip_def lstrip_def rstrip_def is_space_def)

text \<open>
  C7, as the code has it. For every task type that, trimmed, is none of \<open>Examples\<close>,
  \<open>Practice Questions\<close>, \<open>Quiz\<close> and \<open>Study Plan\<close>, the prompt of
  \<open>build_text_tutor_prompt\<close> has the \<open>Explain\<close> instructions in its task slot, contains
  them, and is not empty. The function is total: no input makes it fail.
\<close>

theorem unknown_task_uses_explain:
  assumes "strip task_type \<notin> {''Examples'', ''Practice Questions'', ''Quiz'', ''Study Plan''}"
  shows "(\<exists>before after.
            build_text_tutor_prompt user_text level task_type history =
              before @ (''Your job:'' @ NL @ explain_instructions @ NL @ NL) @ after) \<and>
         contains (build_text_tutor_prompt user_text level task_type history) explain_instructions \<and>
         build_text_tutor_prompt user_text level task_type history \<noteq> []"
proof -
  let ?task = "strip (if task_type \<noteq> [] then task_type else ''Explain'')"
  let ?p = "build_text_tutor_prompt user_text level task_type history"
  have "?task \<notin> {''Examples'', ''Practice Questions'', ''Quiz'', ''Study Plan''}"
    using assms by (simp add: strip_Explain)
  then have tt: "(case map_of task_instructions ?task of
            Some instructions \<Rightarrow> instructions
          | None \<Rightarrow> the (map_of task_instructions ''Explain'')) = explain_instructions"
    by (rule task_text_explain)
  obtain before after where
    eq: "?p = before @ (''Your job:'' @ NL @ explain_instructions @ NL @ NL) @ after"
    unfolding build_text_tutor_prompt_def Let_def tt
    by (metis append.assoc)
  then have "?p = (before @ ''Your job:'' @ NL) @ explain_instructions @ (NL @ NL @ after)"
    by simp
  then have "contains ?p explain_instructions"
    using contains_append by metis
  moreover from eq have "?p \<noteq> []" by simp
  ultimately show ?thesis using eq by blast
qed

theorem unknown_task_uses_explain_witness:
  "strip ''Summarise'' \<notin> {''Examples'', ''Practice Questions'', ''Quiz'', ''Study Plan''} \<and>
   contains (build_text_tutor_prompt ''Explain photosynthesis'' ''Beginner'' ''Summarise'' [])
     explain_instructions \<and>
   build_text_tutor_prompt ''Explain photosynthesis'' ''Beginner'' ''Summarise'' [] \<noteq> []"
proof -
  have 1: "strip ''Summarise'' \<notin> {''Examples'', ''Practice Questions'', ''Quiz'', ''Study Plan''}"
    by (simp add: strip_def lstrip_def rstrip_def is_space_def)
  show ?thesis
    using 1 unknown_task_uses_explain [OF 1, of "''Explain photosynthesis''" "''Beginner''" "[]"]
    by blast
qed

text \<open>
  C7, as the claim states it, fails on a known name with white space around it: the task
  type is trimmed before the lookup, so \<open>Quiz\<close> after a space is not in the known set and
  still selects the quiz instructions.
\<close>

theorem padded_task_name_counterexample:
  "'' Quiz'' \<notin> {''Explain'', ''Examples'', ''Practice Questions'', ''Quiz'', ''Study Plan''} \<and>
   \<not> contains (build_text_tutor_prompt ''x'' ''Beginner'' '' Quiz'' []) explain_instructions \<and>
   contains (build_text_tutor_prompt ''x'' ''Beginner'' '' Quiz'' [])
     (''Your job:'' @ NL @ ''Create a short quiz of 5 questions. '')"
  by code_simp

section \<open>The image solver flow\<close>

text \<open>
  C8. When the solve button was clicked on a file with an accepted extension and the OCR
  call returns a string that is empty after trimming, the flow shows the warning about no
  readable text and makes no model call.
\<close>

theorem blank_ocr_makes_no_model_call:
  assumes "ui_solve_clicked ui"
    and "ui_uploaded_file ui = Some f"
    and "fst (validate_image_file (Some f))"
    and "extract_text_from_image w (file_bytes f) = Inr ocr_text"
    and "strip ocr_text = []"
  shows "handle_image_solver_tab w api_key model ui = [ExtractText, ShowWarning no_text_warning] \<and>
         filter is_model_call (handle_image_solver_tab w api_key model ui) = []"
  using assms
  by (auto simp: handle_image_solver_tab_def split: prod.splits)

theorem blank_ocr_makes_no_model_call_witness:
  "ui_solve_clicked solve_request \<and>
   fst (validate_image_file (ui_uploaded_file solve_request)) \<and>
   extract_text_from_image stub_world ''bytes'' = Inr [CHR '' '', CHR 0x0A] \<and>
   strip [CHR '' '', CHR 0x0A] = [] \<and>
   handle_image_solver_tab stub_world ''sk-or-v1-0'' ''m'' solve_request
     = [ExtractText, ShowWarning no_text_warning]"
proof -
  let ?f = "\<lparr>file_name = ''notes.PNG'', file_bytes = ''bytes''\<rparr>"
  have 1: "ui_solve_clicked solve_request"
    and 2: "ui_uploaded_file solve_request = Some ?f"
    by (simp_all add: solve_request_def)
  have 3: "fst (validate_image_file (Some ?f))"
    by code_simp
  have 4: "extract_text_from_image stub_world (file_bytes ?f) = Inr [CHR '' '', CHR 0x0A]"
    by (simp add: extract_text_from_image_def stub_world_def)
  have 5: "strip [CHR '' '', CHR 0x0A] = []"
    by (simp add: strip_def lstrip_def rstrip_def is_space_def)
  show ?thesis
    using 1 2 3 4 5 blank_ocr_makes_no_model_call [OF 1 2 3 4 5, of "''sk-or-v1-0''" "''m''"]
    by simp
qed

section \<open>The chat flow\<close>

text \<open>
  The flow reaches its last statement only past the clear button, the input test and the
  validation; each of the three branches after that is then a function of the result of
  the one model call it makes.
\<close>

lemma fetch_images_source:
  "fst (fetch_images w query limit) \<noteq> [] \<Longrightarrow> snd (fetch_images w query limit) = ''wikipedia''"
  by (auto simp: fetch_images_def Let_def split: if_splits)

lemma title_wikipedia: "title ''wikipedia'' = ''Wikipedia''"
  by code_simp

lemma chat_turn_entry:
  assumes "handle_text_chat_tab w api_key model ui st = (st', evs, Completed)"
  shows "\<not> ui_clear_clicked ui \<and>
         (\<exists>c cs. ui_user_input ui = Some (c # cs) \<and>
                  fst (validate_text_input (PyStr (c # cs)) ''question/topic''))"
proof -
  have nc: "\<not> ui_clear_clicked ui"
  proof
    assume "ui_clear_clicked ui"
    then have "snd (snd (handle_text_chat_tab w api_key model ui st)) = Cleared"
      by (simp add: handle_text_chat_tab_def)
    with assms show False by simp
  qed
  have "ui_user_input ui \<noteq> None"
  proof
    assume "ui_user_input ui = None"
    with nc have "snd (snd (handle_text_chat_tab w api_key model ui st)) = NoInput"
      by (simp add: handle_text_chat_tab_def)
    with assms show False by simp
  qed
  moreover have "ui_user_input ui \<noteq> Some []"
  proof
    assume "ui_user_input ui = Some []"
    with nc have "snd (snd (handle_text_chat_tab w api_key model ui st)) = NoInput"
      by (simp add: handle_text_chat_tab_def)
    with assms show False by simp
  qed
  ultimately obtain c cs where u: "ui_user_input ui = Some (c # cs)"
    by (metis list.exhaust option.exhaust)
  have "fst (validate_text_input (PyStr (c # cs)) ''question/topic'')"
  proof (rule ccontr)
    assume "\<not> fst (validate_text_input (PyStr (c # cs)) ''question/topic'')"
    with nc u have "snd (snd (handle_text_chat_tab w api_key model ui st)) = Rejected"
      by (simp add: handle_text_chat_tab_def case_prod_unfold del: validate_text_input.simps)
    with assms show False by simp
  qed
  with nc u show ?thesis by blast
qed


lemma plain_turn:
  assumes "\<not> ui_clear_clicked ui"
    and "ui_user_input ui = Some (c # cs)"
    and "fst (validate_text_input (PyStr (c # cs)) ''question/topic'')"
    and "\<not> detect_image_request (c # cs)"
    and "G = snd (generate_llm_response (w_post w)
                   (build_text_tutor_prompt (c # cs) (ui_student_level ui) (ui_task_type ui)
                      (chat_history st))
                   api_key model
                   (messages st @ [\<lparr>role = ''user'', content = c # cs, images = []\<rparr>])
                   default_system_message)"
  shows "snd (snd (handle_text_chat_tab w api_key model ui st)) =
           (case G of Inl exc \<Rightarrow> Failed | Inr response \<Rightarrow> Completed)"
    and "messages (fst (handle_text_chat_tab w api_key model ui st)) =
           messages st @ [\<lparr>role = ''user'', content = c # cs, images = []\<rparr>] @
           (case G of
              Inl exc \<Rightarrow> []
            | Inr response \<Rightarrow> [\<lparr>role = ''assistant'', content = response, images = []\<rparr>])"
  using assms
  by (simp_all add: handle_text_chat_tab_def case_prod_unfold Let_def add_message_def
        add_chat_message_def split: sum.splits del: validate_text_input.simps)

lemma no_images_turn:
  assumes "\<not> ui_clear_clicked ui"
    and "ui_user_input ui = Some (c # cs)"
    and "fst (validate_text_input (PyStr (c # cs)) ''question/topic'')"
    and "detect_image_request (c # cs)"
    and "fst (fetch_images w (w_extract_query w (c # cs)) 3) = []"
    and "G = snd (generate_llm_response (w_post w)
                   (build_text_tutor_prompt (c # cs) (ui_student_level ui) (ui_task_type ui)
                      (chat_history st))
                   api_key model
                   (messages st @
                    [\<lparr>role = ''user'', content = c # cs, images = []\<rparr>,
                     \<lparr>role = ''assistant'', content = no_images_notice, images = []\<rparr>])
                   default_system_message)"
  shows "snd (snd (handle_text_chat_tab w api_key model ui st)) =
           (case G of Inl exc \<Rightarrow> Failed | Inr response \<Rightarrow> Completed)"
    and "messages (fst (handle_text_chat_tab w api_key model ui st)) =
           messages st @
           [\<lparr>role = ''user'', content = c # cs, images = []\<rparr>,
            \<lparr>role = ''assistant'', content = no_images_notice, images = []\<rparr>] @
           (case G of
              Inl exc \<Rightarrow> []
            | Inr response \<Rightarrow> [\<lparr>role = ''assistant'', content = response, images = []\<rparr>])"
  using assms
  by (simp_all add: handle_text_chat_tab_def case_prod_unfold Let_def add_message_def
        split: sum.splits del: validate_text_input.simps)

lemma images_turn:
  assumes "\<not> ui_clear_clicked ui"
    and "ui_user_input ui = Some (c # cs)"
    and "fst (validate_text_input (PyStr (c # cs)) ''question/topic'')"
    and "detect_image_request (c # cs)"
    and "fst (fetch_images w (w_extract_query w (c # cs)) 3) \<noteq> []"
    and "G = snd (generate_llm_response (w_post w)
                   (''Provide a brief (2-3 sentence) informative response about: '' @
                    w_extract_query w (c # cs) @ ''. '' @
                    ''Keep it concise since images will also be shown.'')
                   api_key model
                   (messages st @ [\<lparr>role = ''user'', content = c # cs, images = []\<rparr>])
                   default_system_message)"
  shows "messages (fst (handle_text_chat_tab w api_key model ui st)) =
           messages st @
           [\<lparr>role = ''user'', content = c # cs, images = []\<rparr>,
            \<lparr>role = ''assistant'',
             content =
               (case G of
                  Inr t \<Rightarrow> t
                | Inl exc \<Rightarrow> ''Here are images related to '' @ w_extract_query w (c # cs) @ ''.'') @
               NL @ NL @ ''*Images from Wikipedia*'',
             images = fst (fetch_images w (w_extract_query w (c # cs)) 3)\<rparr>]"
  using assms fetch_images_source [of w "w_extract_query w (c # cs)" 3]
  by (simp add: handle_text_chat_tab_def case_prod_unfold Let_def add_message_def
        title_wikipedia del: validate_text_input.simps)

text \<open>
  C2, as the code has it. An invocation of the chat flow that reaches its end appends the
  user message first. When no image was requested, one assistant message follows: the
  reply \<open>generate_llm_response\<close> returned for the tutoring prompt. When an image was
  requested and images were found, one assistant message follows: the reply for the short
  prompt about the query (the fixed caption naming the query when that call failed)
  with the source note, carrying the image URLs. When an image was requested and none was
  found, two assistant messages follow: the fixed notice that no images were found, then
  the reply \<open>generate_llm_response\<close> returned for the tutoring prompt.
\<close>

theorem completed_turn_messages:
  assumes "handle_text_chat_tab w api_key model ui st = (st', evs, Completed)"
  shows "\<exists>u. ui_user_input ui = Some u \<and>
           (let user_msg = \<lparr>role = ''user'', content = u, images = []\<rparr>;
                notice = \<lparr>role = ''assistant'', content = no_images_notice, images = []\<rparr>;
                query = w_extract_query w u;
                image_urls = fst (fetch_images w query 3);
                tutor_prompt = build_text_tutor_prompt u (ui_student_level ui) (ui_task_type ui)
                                 (chat_history st);
                info_prompt = ''Provide a brief (2-3 sentence) informative response about: '' @
                              query @ ''. '' @ ''Keep it concise since images will also be shown.'';
                reply = (\<lambda>prompt history.
                           snd (generate_llm_response (w_post w) prompt api_key model history
                                  default_system_message))
            in if \<not> detect_image_request u
               then \<exists>response.
                      reply tutor_prompt (messages st @ [user_msg]) = Inr response \<and>
                      messages st' =
                        messages st @
                        [user_msg, \<lparr>role = ''assistant'', content = response, images = []\<rparr>]
               else if image_urls \<noteq> []
               then messages st' =
                      messages st @
                      [user_msg,
                       \<lparr>role = ''assistant'',
                        content =
                          (case reply info_prompt (messages st @ [user_msg]) of
                             Inr t \<Rightarrow> t
                           | Inl exc \<Rightarrow> ''Here are images related to '' @ query @ ''.'') @
                          NL @ NL @ ''*Images from Wikipedia*'',
                        images = image_urls\<rparr>]
               else \<exists>response.
                      reply tutor_prompt (messages st @ [user_msg, notice]) = Inr response \<and>
                      messages st' =
                        messages st @
                        [user_msg, notice,
                         \<lparr>role = ''assistant'', content = response, images = []\<rparr>])"
proof -
  from chat_turn_entry [OF assms] obtain c cs
    where nc: "\<not> ui_clear_clicked ui"
      and u: "ui_user_input ui = Some (c # cs)"
      and valid: "fst (validate_text_input (PyStr (c # cs)) ''question/topic'')"
    by blast
  from assms have st': "fst (handle_text_chat_tab w api_key model ui st) = st'"
    and fin: "snd (snd (handle_text_chat_tab w api_key model ui st)) = Completed"
    by simp_all
  show ?thesis
  proof (cases "detect_image_request (c # cs)")
    case False
    from plain_turn [OF nc u valid False refl, of w api_key model st] st' fin
    show ?thesis using u False
      by (auto simp: Let_def split: sum.splits)
  next
    case True
    show ?thesis
    proof (cases "fst (fetch_images w (w_extract_query w (c # cs)) 3) = []")
      case False
      from images_turn [OF nc u valid True False refl, of api_key model st] st'
      show ?thesis using u True False
        by (simp add: Let_def)
    next
      case none: True
      from no_images_turn [OF nc u valid True none refl, of api_key model st] st' fin
      show ?thesis using u True none
        by (auto simp: Let_def split: sum.splits)
    qed
  qed
qed

theorem completed_turn_messages_witness:
  "snd (snd (handle_text_chat_tab stub_world ''sk-or-v1-0'' ''m'' plain_request empty_session))
     = Completed \<and>
   \<not> detect_image_request ''Explain photosynthesis'' \<and>
   messages (fst (handle_text_chat_tab stub_world ''sk-or-v1-0'' ''m'' plain_request empty_session))
     = [\<lparr>role = ''user'', content = ''Explain photosynthesis'', images = []\<rparr>,
        \<lparr>role = ''assistant'', content = ''### Answer'' @ NL @ NL @ ''Plants make food'',
         images = []\<rparr>]"
proof -
  let ?run = "handle_text_chat_tab stub_world ''sk-or-v1-0'' ''m'' plain_request empty_session"
  have 1: "snd (snd ?run) = Completed"
    by code_simp
  then have 2: "?run = (fst ?run, fst (snd ?run), Completed)"
    by (metis prod.collapse)
  have 3: "\<not> detect_image_request ''Explain photosynthesis''"
    by code_simp
  have 4: "ui_user_input plain_request = Some ''Explain photosynthesis''"
    and 5: "messages empty_session = []"
    by (simp_all add: plain_request_def empty_session_def)
  have 6: "snd (generate_llm_response (w_post stub_world)
                  (build_text_tutor_prompt ''Explain photosynthesis''
                     (ui_student_level plain_request) (ui_task_type plain_request)
                     (chat_history empty_session))
                  ''sk-or-v1-0'' ''m''
                  [\<lparr>role = ''user'', content = ''Explain photosynthesis'', images = []\<rparr>]
                  default_system_message)
           = Inr (''### Answer'' @ NL @ NL @ ''Plants make food'')"
    by code_simp
  from completed_turn_messages [OF 2] 3 4 5 6
  have "messages (fst ?run)
     = [\<lparr>role = ''user'', content = ''Explain photosynthesis'', images = []\<rparr>,
        \<lparr>role = ''assistant'', content = ''### Answer'' @ NL @ NL @ ''Plants make food'',
         images = []\<rparr>]"
    by (simp add: Let_def)
  with 1 3 show ?thesis by simp
qed

text \<open>
  C2, as the claim states it, fails when an image is requested and none is found: the
  turn completes with one user message and two assistant messages.
\<close>

theorem two_assistant_messages:
  "snd (snd (handle_text_chat_tab stub_world ''sk-or-v1-0'' ''m'' image_request empty_session))
     = Completed \<and>
   map role (messages (fst (handle_text_chat_tab stub_world ''sk-or-v1-0'' ''m'' image_request
                              empty_session)))
     = [''user'', ''assistant'', ''assistant'']"
  by code_simp

end
